theory Spec2Isabelle
  imports Main
begin

section \<open>The datepicker control of datepicker-base.ts\<close>

text \<open>
  The class \<open>MatDatepickerBase\<close> is embedded as functions on an explicit state. The state
  holds the fields of the class under their source names and, next to them, the part of
  the surroundings the methods act on: the overlays and dialogs that are live, the content
  components, the pending timers and one-shot subscriptions, and the ordered list of
  effects the methods had on their collaborators (notifications, focus calls, ...).
  A method that can throw returns an \<open>outcome\<close>, which keeps the state reached at the
  moment of the throw, as a JavaScript exception does.
  A call that the collaborators make back into the datepicker while a method runs (the
  detachment sent by a disposed overlay) is part of that method's embedding.
  The date-typed members of the control (start value, minimum, maximum, filter) take no
  part in the open/close logic and are left out.
\<close>

subsection \<open>Data\<close>

datatype error = MissingDateImpl | NoAssociatedInput | SingleInputOnly | TypeError

datatype ThemePalette = Primary | Accent | Warn

datatype direction = Ltr | Rtl

datatype animation_state = Enter | Void

text \<open>An element of the page; \<open>has_focus_fn\<close> is \<open>typeof el.focus === 'function'\<close>.\<close>

record html_element =
  el_id :: nat
  has_focus_fn :: bool

text \<open>\<open>MatDatepickerControl\<close>: the input registered with the datepicker.\<close>

record control =
  ctl_disabled :: bool
  themePalette :: "ThemePalette option"
  connectedOverlayOrigin :: nat

text \<open>\<open>MatDatepickerContent\<close>: the panel shown inside the popup or the dialog.\<close>

record content =
  animationState :: animation_state
  content_color :: "ThemePalette option"
  has_datepicker :: bool
  has_changeDetectorRef :: bool
  destroyed :: bool

datatype horizontal = Start | Center | End

datatype vertical = Top | Middle | Bottom

record connected_position =
  originX :: horizontal
  originY :: vertical
  overlayX :: horizontal
  overlayY :: vertical

record position_strategy =
  origin :: nat
  transformOriginOn :: string
  flexibleDimensions :: bool
  viewportMargin :: nat
  lockedPosition :: bool
  positions :: "connected_position list"

record overlay_config =
  positionStrategy :: position_strategy
  hasBackdrop :: bool
  backdropClass :: string
  overlay_direction :: "direction option"
  panelClass :: string

record overlay =
  config :: overlay_config
  role :: "string option"
  attached :: "nat option"

datatype task = CompleteClose

datatype effect =
    Emit_opened
  | Emit_closed
  | Focus nat
  | Overlay_create nat
  | Overlay_attach nat nat
  | Overlay_dispose nat
  | Update_position nat
  | Dialog_open nat
  | Dialog_close nat
  | Mark_for_check nat
  | Prevent_default
  | Uncaught error

record state =
  p_opened :: bool
  p_disabled :: "bool option"
  p_touchUi :: bool
  p_color :: "ThemePalette option"
  datepickerInput :: "control option"
  popupRef :: "nat option"
  popupComponentRef :: "nat option"
  dialogRef :: "nat option"
  focusedElementBeforeOpen :: "html_element option"
  document :: "html_element option option"
  dir :: "direction option"
  model :: nat
  next_ref :: nat
  overlays :: "(nat \<times> overlay) list"
  dialogs :: "(nat \<times> nat) list"
  contents :: "nat \<Rightarrow> content option"
  timers :: "task list"
  stable_subs :: nat
  anim_subs :: "nat list"
  closed_subs :: "nat list"
  trace :: "effect list"

text \<open>
  \<open>document = None\<close> is the optional document that was not injected;
  \<open>document = Some a\<close> is a document whose \<open>activeElement\<close> is \<open>a\<close>.
  \<open>overlays\<close> are the overlay handles created and not disposed, \<open>dialogs\<close> the dialog
  handles (with their component instance) opened and not closed. \<open>stable_subs\<close> counts
  the pending \<open>take(1)\<close> subscriptions to the zone's \<open>onStable\<close>, \<open>anim_subs\<close> lists the
  components whose \<open>_animationDone\<close> has a pending \<open>take(1)\<close> subscription, and
  \<open>closed_subs\<close> the dialogs whose \<open>afterClosed\<close> has one.
\<close>

datatype 'a outcome = Return 'a state | Throw error state

text \<open>A freshly constructed datepicker (the date adapter being present).\<close>

definition initial :: "bool \<Rightarrow> html_element option option \<Rightarrow> direction option \<Rightarrow> state" where
  "initial touch doc d =
     \<lparr>p_opened = False, p_disabled = None, p_touchUi = touch, p_color = None,
      datepickerInput = None, popupRef = None, popupComponentRef = None, dialogRef = None,
      focusedElementBeforeOpen = None, document = doc, dir = d, model = 0, next_ref = 1,
      overlays = [], dialogs = [], contents = (\<lambda>_. None), timers = [], stable_subs = 0,
      anim_subs = [], closed_subs = [], trace = []\<rparr>"

text \<open>The constructor: throws when no date adapter is provided.\<close>

definition constructor ::
  "bool \<Rightarrow> bool \<Rightarrow> html_element option option \<Rightarrow> direction option \<Rightarrow> error + state" where
  "constructor has_dateAdapter touch doc d =
     (if \<not> has_dateAdapter then Inl MissingDateImpl else Inr (initial touch doc d))"

subsection \<open>Getters\<close>

definition opened :: "state \<Rightarrow> bool" where
  "opened s = p_opened s"

definition touchUi :: "state \<Rightarrow> bool" where
  "touchUi s = p_touchUi s"

text \<open>
  \<open>this._disabled === undefined && this._datepickerInput ? this._datepickerInput.disabled
  : !!this._disabled\<close>
\<close>

definition disabled :: "state \<Rightarrow> bool" where
  "disabled s =
     (case (p_disabled s, datepickerInput s) of
        (None, Some i) \<Rightarrow> ctl_disabled i
      | (d, _) \<Rightarrow> d = Some True)"

definition color :: "state \<Rightarrow> ThemePalette option" where
  "color s =
     (case p_color s of
        Some c \<Rightarrow> Some c
      | None \<Rightarrow> (case datepickerInput s of Some i \<Rightarrow> themePalette i | None \<Rightarrow> None))"

subsection \<open>Effects on the page\<close>

definition emit :: "effect \<Rightarrow> state \<Rightarrow> state" where
  "emit e s = s\<lparr>trace := trace s @ [e]\<rparr>"

definition dialog_close :: "nat \<Rightarrow> state \<Rightarrow> state" where
  "dialog_close d s = emit (Dialog_close d) (s\<lparr>dialogs := filter (\<lambda>e. fst e \<noteq> d) (dialogs s)\<rparr>)"

text \<open>\<open>HTMLElement.focus()\<close>: the element becomes the active element of the document.\<close>

definition focus :: "html_element \<Rightarrow> state \<Rightarrow> state" where
  "focus e s =
     emit (Focus (el_id e))
       (case document s of
          Some a \<Rightarrow> s\<lparr>document := Some (Some e)\<rparr>
        | None \<Rightarrow> s)"

subsection \<open>The content panel\<close>

definition startExitAnimation :: "nat \<Rightarrow> state \<Rightarrow> state" where
  "startExitAnimation c s =
     (case contents s c of
        None \<Rightarrow> s
      | Some inst \<Rightarrow>
          (let s1 = s\<lparr>contents := (contents s)(c := Some (inst\<lparr>animationState := Void\<rparr>))\<rparr>
           in if has_changeDetectorRef inst then emit (Mark_for_check c) s1 else s1))"

definition forwardContentValues :: "nat \<Rightarrow> state \<Rightarrow> state" where
  "forwardContentValues c s =
     (case contents s c of
        None \<Rightarrow> s
      | Some inst \<Rightarrow>
          s\<lparr>contents := (contents s)(c := Some (inst\<lparr>has_datepicker := True,
                                                      content_color := color s\<rparr>))\<rparr>)"

subsection \<open>Closing\<close>

definition completeClose :: "state \<Rightarrow> state" where
  "completeClose s =
     (if p_opened s
      then (emit Emit_closed (s\<lparr>p_opened := False\<rparr>))\<lparr>focusedElementBeforeOpen := None\<rparr>
      else s)"

definition close :: "state \<Rightarrow> state" where
  "close s =
     (if \<not> p_opened s then s
      else
        (let s1 = (case (popupComponentRef s, popupRef s) of
                     (Some c, Some p) \<Rightarrow>
                       (let s' = startExitAnimation c s
                        in s'\<lparr>anim_subs := anim_subs s' @ [c]\<rparr>)
                   | _ \<Rightarrow> s);
             s2 = (case dialogRef s1 of
                     Some d \<Rightarrow> (dialog_close d s1)\<lparr>dialogRef := None\<rparr>
                   | None \<Rightarrow> s1)
         in case focusedElementBeforeOpen s2 of
              Some e \<Rightarrow>
                if has_focus_fn e
                then (let s3 = focus e s2 in s3\<lparr>timers := timers s3 @ [CompleteClose]\<rparr>)
                else completeClose s2
            | None \<Rightarrow> completeClose s2))"

subsection \<open>The subscriber to the popup\<close>

text \<open>
  The key codes of the keycodes module, which is not part of these sources; the values
  are those of the DOM.
\<close>

definition ESCAPE :: nat where
  "ESCAPE = 27"

definition UP_ARROW :: nat where
  "UP_ARROW = 38"

record keyboard_event =
  keyCode :: nat
  altKey :: bool

datatype popup_event = BackdropClick | Detachment | Keydown keyboard_event

text \<open>The filter on the popup's key events, set up in \<open>_createPopup\<close>.\<close>

definition keydown_filter :: "state \<Rightarrow> keyboard_event \<Rightarrow> bool" where
  "keydown_filter s ev =
     (keyCode ev = ESCAPE \<or> (datepickerInput s \<noteq> None \<and> altKey ev \<and> keyCode ev = UP_ARROW))"

text \<open>
  The subscriber to the merged streams of the popup. A detachment carries no event
  object, so nothing is prevented there.
\<close>

definition popup_handler :: "popup_event \<Rightarrow> state \<Rightarrow> state" where
  "popup_handler ev s =
     (case ev of
        BackdropClick \<Rightarrow> close (emit Prevent_default s)
      | Detachment \<Rightarrow> close s
      | Keydown k \<Rightarrow> if keydown_filter s k then close (emit Prevent_default s) else s)"

subsection \<open>The overlay\<close>

text \<open>
  \<open>OverlayRef.dispose\<close>. The handle is gone and the attached content component is
  destroyed: its \<open>ngOnDestroy\<close> completes \<open>_animationDone\<close>, which ends the subscriptions
  to it (the component instance itself stays reachable through its reference).
\<close>

definition overlay_released :: "nat \<Rightarrow> state \<Rightarrow> state" where
  "overlay_released p s =
     (let s1 = (case map_of (overlays s) p of
                  Some ov \<Rightarrow>
                    (case attached ov of
                       Some c \<Rightarrow>
                         s\<lparr>contents := (contents s)
                              (c := map_option (\<lambda>inst. inst\<lparr>destroyed := True\<rparr>) (contents s c)),
                           anim_subs := filter (\<lambda>x. x \<noteq> c) (anim_subs s)\<rparr>
                     | None \<Rightarrow> s)
                | None \<Rightarrow> s)
      in s1\<lparr>overlays := filter (\<lambda>e. fst e \<noteq> p) (overlays s1)\<rparr>)"

definition overlay_attached :: "nat \<Rightarrow> state \<Rightarrow> bool" where
  "overlay_attached p s =
     (case map_of (overlays s) p of
        Some ov \<Rightarrow> (case attached ov of Some c \<Rightarrow> True | None \<Rightarrow> False)
      | None \<Rightarrow> False)"

text \<open>
  An overlay that was attached ends its disposal by sending a detachment, and
  \<open>_createPopup\<close> subscribed to the detachments of every popup: the subscriber runs
  inside \<open>dispose()\<close>, after the teardown.
\<close>

definition overlay_dispose :: "nat \<Rightarrow> state \<Rightarrow> state" where
  "overlay_dispose p s =
     (let s1 = emit (Overlay_dispose p) (overlay_released p s)
      in if overlay_attached p s then popup_handler Detachment s1 else s1)"

text \<open>\<open>OverlayRef.attach(portal)\<close>: creates the content component and returns its reference.\<close>

definition overlay_attach :: "nat \<Rightarrow> state \<Rightarrow> nat \<times> state" where
  "overlay_attach p s =
     (let c = next_ref s;
          new = \<lparr>animationState = Enter, content_color = None, has_datepicker = False,
                 has_changeDetectorRef = True, destroyed = False\<rparr>
      in (c, emit (Overlay_attach p c)
               (s\<lparr>next_ref := c + 1,
                  contents := (contents s)(c := Some new),
                  overlays := map (\<lambda>e. if fst e = p then (p, (snd e)\<lparr>attached := Some c\<rparr>) else e)
                                  (overlays s)\<rparr>)))"

subsection \<open>The dialog service\<close>

text \<open>\<open>MatDialog.open\<close>: a new dialog handle with its content component.\<close>

definition dialog_open :: "state \<Rightarrow> (nat \<times> nat) \<times> state" where
  "dialog_open s =
     (let d = next_ref s; c = d + 1;
          new = \<lparr>animationState = Enter, content_color = None, has_datepicker = False,
                 has_changeDetectorRef = True, destroyed = False\<rparr>
      in ((d, c), emit (Dialog_open d)
                    (s\<lparr>next_ref := c + 1,
                       contents := (contents s)(c := Some new),
                       dialogs := dialogs s @ [(d, c)]\<rparr>)))"

subsection \<open>Registration\<close>

definition registerInput :: "control \<Rightarrow> state \<Rightarrow> nat outcome" where
  "registerInput input s =
     (case datepickerInput s of
        Some i \<Rightarrow> Throw SingleInputOnly s
      | None \<Rightarrow> Return (model s) (s\<lparr>datepickerInput := Some input\<rparr>))"

subsection \<open>The popup\<close>

definition flexibleConnectedTo :: "nat \<Rightarrow> position_strategy" where
  "flexibleConnectedTo el =
     \<lparr>origin = el, transformOriginOn = [], flexibleDimensions = True, viewportMargin = 0,
      lockedPosition = False, positions = []\<rparr>"

definition createPopupPositionStrategy :: "state \<Rightarrow> error + position_strategy" where
  "createPopupPositionStrategy s =
     (case datepickerInput s of
        None \<Rightarrow> Inl TypeError
      | Some i \<Rightarrow>
          Inr ((flexibleConnectedTo (connectedOverlayOrigin i))
                 \<lparr>transformOriginOn := ''.mat-datepicker-content'',
                  flexibleDimensions := False,
                  viewportMargin := 8,
                  lockedPosition := True,
                  positions :=
                    [\<lparr>originX = Start, originY = Bottom, overlayX = Start, overlayY = Top\<rparr>,
                     \<lparr>originX = Start, originY = Top, overlayX = Start, overlayY = Bottom\<rparr>,
                     \<lparr>originX = End, originY = Bottom, overlayX = End, overlayY = Top\<rparr>,
                     \<lparr>originX = End, originY = Top, overlayX = End, overlayY = Bottom\<rparr>]\<rparr>))"

text \<open>
  \<open>_destroyPopup\<close>: the two references are cleared after \<open>dispose()\<close> has returned,
  so the subscriber that \<open>dispose()\<close> calls still sees them.
\<close>

definition destroyPopup :: "state \<Rightarrow> state" where
  "destroyPopup s =
     (case popupRef s of
        None \<Rightarrow> s
      | Some p \<Rightarrow> (overlay_dispose p s)\<lparr>popupRef := None, popupComponentRef := None\<rparr>)"

definition createPopup :: "state \<Rightarrow> unit outcome" where
  "createPopup s =
     (case createPopupPositionStrategy s of
        Inl e \<Rightarrow> Throw e s
      | Inr ps \<Rightarrow>
          (let cfg = \<lparr>positionStrategy = ps, hasBackdrop = True,
                      backdropClass = ''mat-overlay-transparent-backdrop'',
                      overlay_direction = dir s, panelClass = ''mat-datepicker-popup''\<rparr>;
               p = next_ref s
           in Return ()
                (emit (Overlay_create p)
                   (s\<lparr>next_ref := p + 1,
                      overlays := overlays s @
                        [(p, \<lparr>config = cfg, role = Some ''dialog'', attached = None\<rparr>)],
                      popupRef := Some p\<rparr>))))"

definition openAsPopup :: "state \<Rightarrow> unit outcome" where
  "openAsPopup s =
     (case createPopup (destroyPopup s) of
        Throw e s1 \<Rightarrow> Throw e s1
      | Return _ s1 \<Rightarrow>
          (case popupRef s1 of
             None \<Rightarrow> Throw TypeError s1
           | Some p \<Rightarrow>
               (let (c, s2) = overlay_attach p s1;
                    s3 = forwardContentValues c (s2\<lparr>popupComponentRef := Some c\<rparr>)
                in Return () (s3\<lparr>stable_subs := stable_subs s3 + 1\<rparr>))))"

subsection \<open>The dialog\<close>

definition openAsDialog :: "state \<Rightarrow> unit outcome" where
  "openAsDialog s =
     (let s1 = (case dialogRef s of Some d \<Rightarrow> dialog_close d s | None \<Rightarrow> s);
          ((d, c), s2) = dialog_open s1;
          s3 = s2\<lparr>dialogRef := Some d, closed_subs := closed_subs s2 @ [d]\<rparr>
      in Return () (forwardContentValues c s3))"

subsection \<open>Opening\<close>

definition open_dp :: "state \<Rightarrow> unit outcome" where
  "open_dp s =
     (if p_opened s \<or> disabled s then Return () s
      else if datepickerInput s = None then Throw NoAssociatedInput s
      else
        (let s1 = (case document s of
                     Some a \<Rightarrow> s\<lparr>focusedElementBeforeOpen := a\<rparr>
                   | None \<Rightarrow> s)
         in case (if touchUi s1 then openAsDialog s1 else openAsPopup s1) of
              Throw e s2 \<Rightarrow> Throw e s2
            | Return _ s2 \<Rightarrow> Return () (emit Emit_opened (s2\<lparr>p_opened := True\<rparr>))))"

text \<open>The setter of the public \<open>opened\<close> property: \<open>value ? this.open() : this.close()\<close>.\<close>

definition set_opened :: "bool \<Rightarrow> state \<Rightarrow> unit outcome" where
  "set_opened v s = (if v then open_dp s else Return () (close s))"

text \<open>The setter of \<open>touchUi\<close>, on a value already coerced to a boolean.\<close>

definition set_touchUi :: "bool \<Rightarrow> state \<Rightarrow> state" where
  "set_touchUi v s = s\<lparr>p_touchUi := v\<rparr>"

definition set_disabled :: "bool \<Rightarrow> state \<Rightarrow> state" where
  "set_disabled v s = (if Some v \<noteq> p_disabled s then s\<lparr>p_disabled := Some v\<rparr> else s)"

subsection \<open>Callbacks\<close>

text \<open>
  The subscriber to \<open>onStable\<close> registered by \<open>_openAsPopup\<close>:
  \<open>this._popupRef!.updatePosition()\<close>, on the popup that is current when it runs.
\<close>

definition updatePosition_callback :: "state \<Rightarrow> state" where
  "updatePosition_callback s =
     (case popupRef s of
        Some p \<Rightarrow> emit (Update_position p) s
      | None \<Rightarrow> emit (Uncaught TypeError) s)"

text \<open>The zone becomes stable: every pending one-shot subscriber runs, once.\<close>

definition zone_stable :: "state \<Rightarrow> state" where
  "zone_stable s = (updatePosition_callback ^^ stable_subs s) (s\<lparr>stable_subs := 0\<rparr>)"

text \<open>
  The animation of component \<open>c\<close> is done: every pending one-shot subscriber of its
  \<open>_animationDone\<close> runs \<open>_destroyPopup\<close>. A destroyed component has completed its
  \<open>_animationDone\<close> and calls no subscriber.
\<close>

definition animation_done :: "nat \<Rightarrow> state \<Rightarrow> state" where
  "animation_done c s =
     (case contents s c of
        None \<Rightarrow> s
      | Some inst \<Rightarrow>
          if destroyed inst then s
          else (destroyPopup ^^ length (filter (\<lambda>x. x = c) (anim_subs s)))
                 (s\<lparr>anim_subs := filter (\<lambda>x. x \<noteq> c) (anim_subs s)\<rparr>))"

text \<open>The oldest pending timer fires.\<close>

definition timer_fires :: "state \<Rightarrow> state" where
  "timer_fires s =
     (case timers s of
        [] \<Rightarrow> s
      | CompleteClose # ts \<Rightarrow> completeClose (s\<lparr>timers := ts\<rparr>))"

text \<open>
  Dialog \<open>d\<close> has closed, on the datepicker's request or dismissed by the user: the
  subscriber to its \<open>afterClosed\<close> runs \<open>close\<close>.
\<close>

definition dialog_afterClosed :: "nat \<Rightarrow> state \<Rightarrow> state" where
  "dialog_afterClosed d s =
     (if d \<in> set (closed_subs s)
      then close (s\<lparr>closed_subs := filter (\<lambda>x. x \<noteq> d) (closed_subs s),
                    dialogs := filter (\<lambda>e. fst e \<noteq> d) (dialogs s)\<rparr>)
      else s)"

definition ngOnDestroy :: "state \<Rightarrow> state" where
  "ngOnDestroy s = close (destroyPopup s)"

text \<open>
  \<open>MatDatepickerContent._handleUserSelection\<close>; the argument is the answer of the
  optional selection model to \<open>isComplete()\<close>, \<open>None\<close> when the content has no model.
\<close>

definition handleUserSelection :: "bool option \<Rightarrow> state \<Rightarrow> state" where
  "handleUserSelection complete s =
     (case complete of
        None \<Rightarrow> close s
      | Some c \<Rightarrow> if c then close s else s)"

subsection \<open>Runs of the datepicker\<close>

text \<open>
  What can happen to a datepicker: calls of its methods and setters, the callbacks it
  subscribed to, a selection made in the content panel, and its destruction. A popup
  only sends events while it is not disposed.
\<close>

datatype event =
    Open
  | Close
  | Set_opened bool
  | Set_touchUi bool
  | Register control
  | Set_disabled bool
  | Timer
  | Animation_done nat
  | Stable
  | Popup nat popup_event
  | After_closed nat
  | User_selection "bool option"
  | Destroy

fun state_of :: "'a outcome \<Rightarrow> state" where
  "state_of (Return _ s) = s"
| "state_of (Throw _ s) = s"

fun step :: "event \<Rightarrow> state \<Rightarrow> state" where
  "step Open s = state_of (open_dp s)"
| "step Close s = close s"
| "step (Set_opened v) s = state_of (set_opened v s)"
| "step (Set_touchUi v) s = set_touchUi v s"
| "step (Register i) s = state_of (registerInput i s)"
| "step (Set_disabled v) s = set_disabled v s"
| "step Timer s = timer_fires s"
| "step (Animation_done c) s = animation_done c s"
| "step Stable s = zone_stable s"
| "step (Popup p ev) s = (if p \<in> fst ` set (overlays s) then popup_handler ev s else s)"
| "step (After_closed d) s = dialog_afterClosed d s"
| "step (User_selection c) s = handleUserSelection c s"
| "step Destroy s = ngOnDestroy s"

definition run :: "event list \<Rightarrow> state \<Rightarrow> state" where
  "run evs s = fold step evs s"

text \<open>The runs in which the touch mode stays \<open>touch\<close>.\<close>

fun sets_mode_to :: "bool \<Rightarrow> event \<Rightarrow> bool" where
  "sets_mode_to touch (Set_touchUi v) = (v = touch)"
| "sets_mode_to touch ev = True"

definition keeps_mode :: "bool \<Rightarrow> event list \<Rightarrow> bool" where
  "keeps_mode touch evs = list_all (sets_mode_to touch) evs"



subsection \<open>Sample values\<close>

definition sample_input :: control where
  "sample_input = \<lparr>ctl_disabled = False, themePalette = Some Accent, connectedOverlayOrigin = 40\<rparr>"

definition sample_button :: html_element where
  "sample_button = \<lparr>el_id = 41, has_focus_fn = True\<rparr>"

text \<open>A page with a focused button, and a setting without a document.\<close>

definition with_page :: "bool \<Rightarrow> state" where
  "with_page touch = initial touch (Some (Some sample_button)) None"

definition without_document :: "bool \<Rightarrow> state" where
  "without_document touch = initial touch None None"

section \<open>Properties\<close>

subsection \<open>Unfolding the model\<close>

lemmas model_defs =
  initial_def with_page_def without_document_def sample_input_def sample_button_def
  registerInput_def open_dp_def close_def completeClose_def set_opened_def
  disabled_def touchUi_def color_def emit_def
  openAsPopup_def openAsDialog_def destroyPopup_def createPopup_def
  createPopupPositionStrategy_def flexibleConnectedTo_def
  overlay_dispose_def overlay_attach_def dialog_open_def dialog_close_def focus_def
  startExitAnimation_def forwardContentValues_def
  popup_handler_def keydown_filter_def ESCAPE_def UP_ARROW_def
  updatePosition_callback_def zone_stable_def animation_done_def timer_fires_def
  overlay_released_def overlay_attached_def
  dialog_afterClosed_def set_disabled_def set_touchUi_def ngOnDestroy_def
  handleUserSelection_def run_def keeps_mode_def Let_def

subsection \<open>Frame lemmas\<close>

lemma open_guard: "p_opened s \<or> disabled s \<Longrightarrow> open_dp s = Return () s"
  by (simp add: open_dp_def)

lemma close_closed: "\<not> p_opened s \<Longrightarrow> close s = s"
  by (simp add: close_def)

lemma overlay_dispose_closed:
  "\<not> p_opened s \<Longrightarrow> overlay_dispose p s = emit (Overlay_dispose p) (overlay_released p s)"
  by (simp add: overlay_dispose_def popup_handler_def Let_def close_closed emit_def
        overlay_released_def split: option.splits)

lemma destroyPopup_closed:
  "\<not> p_opened s \<Longrightarrow>
     destroyPopup s =
       (case popupRef s of
          None \<Rightarrow> s
        | Some p \<Rightarrow> (emit (Overlay_dispose p) (overlay_released p s))
                      \<lparr>popupRef := None, popupComponentRef := None\<rparr>)"
  by (simp add: destroyPopup_def overlay_dispose_closed split: option.splits)

lemma open_dp_opened: "open_dp s = Return () s' \<Longrightarrow> p_opened s' \<or> disabled s'"
  by (auto simp: open_dp_def emit_def Let_def split: if_splits outcome.splits option.splits)

lemma openAsDialog_fields:
  "openAsDialog s = Return () s' \<Longrightarrow>
     dialogRef s' = Some (next_ref s) \<and> next_ref s \<in> fst ` set (dialogs s') \<and>
     overlays s' = overlays s \<and> popupRef s' = popupRef s \<and>
     popupComponentRef s' = popupComponentRef s \<and>
     trace s' = trace s @ (case dialogRef s of Some d \<Rightarrow> [Dialog_close d] | None \<Rightarrow> []) @
                  [Dialog_open (next_ref s)]"
  by (auto simp: openAsDialog_def dialog_open_def dialog_close_def forwardContentValues_def
        emit_def Let_def split: option.splits)

lemma openAsPopup_fields:
  "\<not> p_opened s \<Longrightarrow> openAsPopup s = Return () s' \<Longrightarrow>
     popupRef s' = Some (next_ref s) \<and> popupComponentRef s' = Some (next_ref s + 1) \<and>
     next_ref s \<in> fst ` set (overlays s') \<and>
     dialogs s' = dialogs s \<and> dialogRef s' = dialogRef s \<and>
     trace s' = trace s @ (case popupRef s of Some p \<Rightarrow> [Overlay_dispose p] | None \<Rightarrow> []) @
                  [Overlay_create (next_ref s), Overlay_attach (next_ref s) (next_ref s + 1)]"
  apply (simp add: openAsPopup_def destroyPopup_closed split: outcome.splits option.splits)
  apply (auto simp: createPopup_def overlay_released_def overlay_attach_def forwardContentValues_def
        emit_def Let_def createPopupPositionStrategy_def split: option.splits sum.splits prod.splits if_splits)
  done

lemma openAsDialog_recorded:
  "openAsDialog s = Return () s' \<Longrightarrow> focusedElementBeforeOpen s' = focusedElementBeforeOpen s"
  by (auto simp: openAsDialog_def dialog_open_def dialog_close_def forwardContentValues_def
        emit_def Let_def split: option.splits)

lemma openAsPopup_recorded:
  "\<not> p_opened s \<Longrightarrow> openAsPopup s = Return () s' \<Longrightarrow>
     focusedElementBeforeOpen s' = focusedElementBeforeOpen s"
  apply (simp add: openAsPopup_def destroyPopup_closed split: outcome.splits option.splits)
  apply (auto simp: createPopup_def overlay_released_def overlay_attach_def
        forwardContentValues_def emit_def Let_def createPopupPositionStrategy_def
        split: option.splits sum.splits prod.splits if_splits)
  done

lemma open_dp_success:
  assumes "\<not> p_opened s" "\<not> disabled s" "open_dp s = Return () s'"
  shows "\<exists>s1 s2. s1 = (case document s of Some a \<Rightarrow> s\<lparr>focusedElementBeforeOpen := a\<rparr> | None \<Rightarrow> s) \<and>
           (if p_touchUi s then openAsDialog s1 else openAsPopup s1) = Return () s2 \<and>
           s' = emit Emit_opened (s2\<lparr>p_opened := True\<rparr>)"
  using assms
  by (auto simp: open_dp_def touchUi_def Let_def split: if_splits outcome.splits option.splits)

lemma close_pre_fields:
  assumes "p_opened s"
  shows "\<exists>s2. p_opened s2 \<and> focusedElementBeforeOpen s2 = focusedElementBeforeOpen s \<and>
           timers s2 = timers s \<and> document s2 = document s \<and>
           (\<exists>m. trace s2 = trace s @ m \<and> Emit_closed \<notin> set m \<and> (\<forall>x. Focus x \<notin> set m)) \<and>
           close s = (case focusedElementBeforeOpen s2 of
              Some e \<Rightarrow>
                if has_focus_fn e
                then (let s3 = focus e s2 in s3\<lparr>timers := timers s3 @ [CompleteClose]\<rparr>)
                else completeClose s2
            | None \<Rightarrow> completeClose s2)"
  using assms
  apply (simp add: close_def Let_def)
  apply (rule exI, rule conjI[rotated], rule conjI[rotated], rule conjI[rotated], rule conjI[rotated],rule conjI[rotated], rule refl)
  apply (auto simp: startExitAnimation_def dialog_close_def emit_def Let_def split: option.splits)
  done

subsection \<open>Opening\<close>

text \<open>
  C1: on a datepicker that is already open, or that is disabled, \<open>open()\<close> returns
  normally and leaves the whole state as it was: the opened flag, the popup and dialog
  handles, the recorded element, and the list of effects, so no "opened" notification is
  emitted. In particular a second \<open>open()\<close> right after one that returned changes nothing.
\<close>

theorem open_noop: "(p_opened s \<or> disabled s \<longrightarrow> open_dp s = Return () s) \<and>
   (open_dp s = Return () s' \<longrightarrow> open_dp s' = Return () s')"
  using open_guard open_dp_opened by blast

theorem open_noop_witness:
  "p_opened (state_of (open_dp (state_of (registerInput sample_input (with_page False))))) \<and>
   open_dp (state_of (registerInput sample_input (with_page False))) =
     Return () (state_of (open_dp (state_of (registerInput sample_input (with_page False))))) \<and>
   open_dp (state_of (open_dp (state_of (registerInput sample_input (with_page False))))) =
     Return () (state_of (open_dp (state_of (registerInput sample_input (with_page False)))))"
proof -
  let ?s = "state_of (registerInput sample_input (with_page False))"
  let ?t = "state_of (open_dp ?s)"
  have a: "open_dp ?s = Return () ?t" by (simp add: model_defs)
  have b: "p_opened ?t" by (simp add: model_defs)
  from open_noop [of ?t ?t] b have c: "open_dp ?t = Return () ?t" by blast
  from open_noop [of ?s ?t] a have "open_dp ?t = Return () ?t" by blast
  with a b show ?thesis by blast
qed

text \<open>
  C2: on a datepicker with no registered input that is neither open nor disabled,
  \<open>open()\<close> throws and the state reached is the state before the call. The guard
  for "open or disabled" comes first in \<open>open()\<close>.
\<close>

theorem open_without_input:
  "datepickerInput s = None \<Longrightarrow> \<not> p_opened s \<Longrightarrow> \<not> disabled s \<Longrightarrow>
     open_dp s = Throw NoAssociatedInput s"
  by (simp add: open_dp_def)

theorem open_without_input_witness:
  "datepickerInput (with_page False) = None \<and> \<not> p_opened (with_page False) \<and>
   \<not> disabled (with_page False) \<and>
   open_dp (with_page False) = Throw NoAssociatedInput (with_page False)"
proof -
  have a: "datepickerInput (with_page False) = None" by (simp add: model_defs)
  have b: "\<not> p_opened (with_page False)" by (simp add: model_defs)
  have c: "\<not> disabled (with_page False)" by (simp add: model_defs)
  from open_without_input [OF a b c] a b c show ?thesis by blast
qed

text \<open>
  A disabled datepicker with no registered input: \<open>open()\<close> returns without throwing.
\<close>

theorem open_without_input_counterexample:
  "datepickerInput (set_disabled True (with_page False)) = None \<and>
   open_dp (set_disabled True (with_page False)) = Return () (set_disabled True (with_page False))"
  by (simp add: model_defs)

text \<open>
  C4: when \<open>open()\<close> gets past its guards and returns, touch mode decides the
  presentation. In touch mode a new dialog is opened and its handle stored, the overlays
  and the popup fields stay as they were and no overlay is created. Otherwise a new
  overlay is created, the popup handle and the popup component reference are set, and the
  dialogs and the dialog handle stay as they were.
\<close>

theorem open_presentation:
  assumes "\<not> p_opened s" and "\<not> disabled s" and "open_dp s = Return () s'"
  shows "(touchUi s \<longrightarrow>
            dialogRef s' = Some (next_ref s) \<and> next_ref s \<in> fst ` set (dialogs s') \<and>
            overlays s' = overlays s \<and> popupRef s' = popupRef s \<and>
            popupComponentRef s' = popupComponentRef s \<and>
            trace s' = trace s @ (case dialogRef s of Some d \<Rightarrow> [Dialog_close d] | None \<Rightarrow> []) @
                         [Dialog_open (next_ref s), Emit_opened]) \<and>
         (\<not> touchUi s \<longrightarrow>
            popupRef s' = Some (next_ref s) \<and> popupComponentRef s' = Some (next_ref s + 1) \<and>
            next_ref s \<in> fst ` set (overlays s') \<and>
            dialogs s' = dialogs s \<and> dialogRef s' = dialogRef s \<and>
            trace s' = trace s @ (case popupRef s of Some p \<Rightarrow> [Overlay_dispose p] | None \<Rightarrow> []) @
                         [Overlay_create (next_ref s), Overlay_attach (next_ref s) (next_ref s + 1),
                          Emit_opened])"
proof -
  define s1 where "s1 = (case document s of Some a \<Rightarrow> s\<lparr>focusedElementBeforeOpen := a\<rparr> | None \<Rightarrow> s)"
  from open_dp_success [OF assms] obtain s2 where
    run: "(if p_touchUi s then openAsDialog s1 else openAsPopup s1) = Return () s2" and
    s': "s' = emit Emit_opened (s2\<lparr>p_opened := True\<rparr>)"
    unfolding s1_def by blast
  have same: "next_ref s1 = next_ref s" "dialogRef s1 = dialogRef s" "popupRef s1 = popupRef s"
    "overlays s1 = overlays s" "dialogs s1 = dialogs s" "trace s1 = trace s"
    "popupComponentRef s1 = popupComponentRef s"
    by (simp_all add: s1_def split: option.splits)
  have closed: "\<not> p_opened s1"
    using assms(1) by (simp add: s1_def split: option.splits)
  show ?thesis
  proof (cases "p_touchUi s")
    case True
    with run have "openAsDialog s1 = Return () s2" by simp
    from openAsDialog_fields [OF this] True s' same show ?thesis
      by (simp add: touchUi_def emit_def)
  next
    case False
    with run have "openAsPopup s1 = Return () s2" by simp
    from openAsPopup_fields [OF closed this] False s' same show ?thesis
      by (simp add: touchUi_def emit_def)
  qed
qed

theorem open_presentation_witness:
  "dialogRef (state_of (open_dp (state_of (registerInput sample_input (with_page True))))) = Some 1 \<and>
   popupRef (state_of (open_dp (state_of (registerInput sample_input (with_page True))))) = None \<and>
   popupRef (state_of (open_dp (state_of (registerInput sample_input (with_page False))))) = Some 1 \<and>
   dialogRef (state_of (open_dp (state_of (registerInput sample_input (with_page False))))) = None"
proof -
  let ?a = "state_of (registerInput sample_input (with_page True))"
  let ?b = "state_of (registerInput sample_input (with_page False))"
  have a: "\<not> p_opened ?a" "\<not> disabled ?a" "open_dp ?a = Return () (state_of (open_dp ?a))"
    "touchUi ?a" "next_ref ?a = 1" "popupRef ?a = None"
    by (simp_all add: model_defs)
  have b: "\<not> p_opened ?b" "\<not> disabled ?b" "open_dp ?b = Return () (state_of (open_dp ?b))"
    "\<not> touchUi ?b" "next_ref ?b = 1" "dialogRef ?b = None"
    by (simp_all add: model_defs)
  from open_presentation [OF a(1) a(2) a(3)] a(4,5,6)
  have "dialogRef (state_of (open_dp ?a)) = Some 1 \<and> popupRef (state_of (open_dp ?a)) = None"
    by simp
  moreover from open_presentation [OF b(1) b(2) b(3)] b(4,5,6)
  have "popupRef (state_of (open_dp ?b)) = Some 1 \<and> dialogRef (state_of (open_dp ?b)) = None"
    by simp
  ultimately show ?thesis by blast
qed

subsection \<open>Closing\<close>

text \<open>
  C3: on a datepicker that is closed, \<open>close()\<close> changes nothing, the list of effects
  included, and does not throw.
\<close>

theorem close_noop: "\<not> p_opened s \<Longrightarrow> close s = s"
  by (simp add: close_def)

theorem close_noop_witness:
  "\<not> p_opened (with_page True) \<and> close (with_page True) = with_page True"
proof -
  have a: "\<not> p_opened (with_page True)" by (simp add: model_defs)
  from close_noop [OF a] a show ?thesis by blast
qed

text \<open>
  C5: \<open>open()\<close> records the active element of the document. On an open datepicker
  whose recorded element has a \<open>focus\<close> function, \<open>close()\<close> focuses it as its last
  effect and leaves the finalization to a timer: the datepicker still counts as open, no
  "closed" notification has been emitted, and when the timer fires the flag is reset, the
  notification emitted and the recorded element cleared. When no element was recorded, or
  it has no \<open>focus\<close> function, \<open>close()\<close> finalizes at once, focuses nothing and sets
  no timer.
\<close>

theorem close_restores_focus:
  "(\<not> p_opened s0 \<and> \<not> disabled s0 \<and> document s0 = Some a \<and> open_dp s0 = Return () s \<longrightarrow>
      focusedElementBeforeOpen s = a) \<and>
   (p_opened s \<and> focusedElementBeforeOpen s = Some e \<and> has_focus_fn e \<longrightarrow>
      last (trace (close s)) = Focus (el_id e) \<and>
      Emit_closed \<notin> set (drop (length (trace s)) (trace (close s))) \<and>
      p_opened (close s) \<and>
      focusedElementBeforeOpen (close s) = Some e \<and>
      timers (close s) = timers s @ [CompleteClose] \<and>
      (timers s = [] \<longrightarrow>
         \<not> p_opened (timer_fires (close s)) \<and>
         trace (timer_fires (close s)) = trace (close s) @ [Emit_closed] \<and>
         focusedElementBeforeOpen (timer_fires (close s)) = None)) \<and>
   (p_opened s \<and> (focusedElementBeforeOpen s = None \<or>
                   (focusedElementBeforeOpen s = Some e \<and> \<not> has_focus_fn e)) \<longrightarrow>
      \<not> p_opened (close s) \<and>
      last (trace (close s)) = Emit_closed \<and>
      (\<forall>x. Focus x \<notin> set (drop (length (trace s)) (trace (close s)))) \<and>
      focusedElementBeforeOpen (close s) = None \<and>
      timers (close s) = timers s)"
proof (intro conjI impI)
  assume h: "\<not> p_opened s0 \<and> \<not> disabled s0 \<and> document s0 = Some a \<and> open_dp s0 = Return () s"
  define s1 where "s1 = s0\<lparr>focusedElementBeforeOpen := a\<rparr>"
  from h have "\<exists>s2. (if p_touchUi s0 then openAsDialog s1 else openAsPopup s1) = Return () s2 \<and>
      s = emit Emit_opened (s2\<lparr>p_opened := True\<rparr>)"
    using open_dp_success [of s0 s] by (auto simp: s1_def)
  then obtain s2 where
    r: "(if p_touchUi s0 then openAsDialog s1 else openAsPopup s1) = Return () s2" and
    s: "s = emit Emit_opened (s2\<lparr>p_opened := True\<rparr>)"
    by blast
  have c: "\<not> p_opened s1" "focusedElementBeforeOpen s1 = a"
    using h by (simp_all add: s1_def)
  have "focusedElementBeforeOpen s2 = a"
  proof (cases "p_touchUi s0")
    case True
    with r have "openAsDialog s1 = Return () s2" by simp
    from openAsDialog_recorded [OF this] c show ?thesis by simp
  next
    case False
    with r have "openAsPopup s1 = Return () s2" by simp
    from openAsPopup_recorded [OF c(1) this] c show ?thesis by simp
  qed
  then show "focusedElementBeforeOpen s = a"
    by (simp add: s emit_def)
next
  assume h: "p_opened s \<and> focusedElementBeforeOpen s = Some e \<and> has_focus_fn e"
  from close_pre_fields [of s] h obtain s2 m where
    s2: "p_opened s2" "focusedElementBeforeOpen s2 = Some e" "timers s2 = timers s"
        "trace s2 = trace s @ m" "Emit_closed \<notin> set m" and
    c: "close s = (let s3 = focus e s2 in s3\<lparr>timers := timers s3 @ [CompleteClose]\<rparr>)"
    by auto
  show "last (trace (close s)) = Focus (el_id e)"
    by (simp add: c focus_def emit_def Let_def split: option.splits)
  show "Emit_closed \<notin> set (drop (length (trace s)) (trace (close s)))"
    using s2 by (simp add: c focus_def emit_def Let_def split: option.splits)
  show "p_opened (close s)"
    using s2 by (simp add: c focus_def emit_def Let_def split: option.splits)
  show "focusedElementBeforeOpen (close s) = Some e"
    using s2 by (simp add: c focus_def emit_def Let_def split: option.splits)
  show "timers (close s) = timers s @ [CompleteClose]"
    using s2 by (simp add: c focus_def emit_def Let_def split: option.splits)
  {
    assume t: "timers s = []"
    show "\<not> p_opened (timer_fires (close s))"
      using s2 t by (simp add: c timer_fires_def completeClose_def focus_def emit_def Let_def split: option.splits)
    show "trace (timer_fires (close s)) = trace (close s) @ [Emit_closed]"
      using s2 t by (simp add: c timer_fires_def completeClose_def focus_def emit_def Let_def split: option.splits)
    show "focusedElementBeforeOpen (timer_fires (close s)) = None"
      using s2 t by (simp add: c timer_fires_def completeClose_def focus_def emit_def Let_def split: option.splits)
  }
next
  assume h: "p_opened s \<and> (focusedElementBeforeOpen s = None \<or>
                   (focusedElementBeforeOpen s = Some e \<and> \<not> has_focus_fn e))"
  from close_pre_fields [of s] h obtain s2 m where
    s2: "p_opened s2" "focusedElementBeforeOpen s2 = focusedElementBeforeOpen s" "timers s2 = timers s"
        "trace s2 = trace s @ m" "\<forall>x. Focus x \<notin> set m" and
    c: "close s = completeClose s2"
    by auto
  show "\<not> p_opened (close s)"
    using s2 by (simp add: c completeClose_def emit_def)
  show "last (trace (close s)) = Emit_closed"
    using s2 by (simp add: c completeClose_def emit_def)
  show "\<forall>x. Focus x \<notin> set (drop (length (trace s)) (trace (close s)))"
    using s2 by (simp add: c completeClose_def emit_def)
  show "focusedElementBeforeOpen (close s) = None"
    using s2 by (simp add: c completeClose_def emit_def)
  show "timers (close s) = timers s"
    using s2 by (simp add: c completeClose_def emit_def)
qed

theorem close_restores_focus_witness:
  "last (trace (close (run [Register sample_input, Open] (with_page False)))) = Focus 41 \<and>
   p_opened (close (run [Register sample_input, Open] (with_page False))) \<and>
   \<not> p_opened (timer_fires (close (run [Register sample_input, Open] (with_page False)))) \<and>
   \<not> p_opened (close (run [Register sample_input, Open] (without_document False)))"
proof -
  let ?r = "run [Register sample_input] (with_page False)"
  let ?s = "run [Register sample_input, Open] (with_page False)"
  let ?u = "run [Register sample_input, Open] (without_document False)"
  have a1: "\<not> p_opened ?r" by (simp add: model_defs)
  have a2: "\<not> disabled ?r" by (simp add: model_defs)
  have a3: "document ?r = Some (Some sample_button)" by (simp add: model_defs)
  have a4: "open_dp ?r = Return () ?s" by (simp add: model_defs)
  note a = a1 a2 a3 a4
  have b: "p_opened ?s" "has_focus_fn sample_button" "timers ?s = []" "el_id sample_button = 41"
    by (simp_all add: model_defs)
  have c: "p_opened ?u" "focusedElementBeforeOpen ?u = None"
    by (simp_all add: model_defs)
  from close_restores_focus [of ?r "Some sample_button" ?s sample_button] a
  have f: "focusedElementBeforeOpen ?s = Some sample_button" by blast
  from close_restores_focus [of ?r "Some sample_button" ?s sample_button] f b
  have 1: "last (trace (close ?s)) = Focus 41 \<and> p_opened (close ?s) \<and> \<not> p_opened (timer_fires (close ?s))"
    by simp
  from close_restores_focus [of ?r "Some sample_button" ?u sample_button] c
  have 2: "\<not> p_opened (close ?u)" by blast
  from 1 2 show ?thesis by blast
qed

text \<open>
  Without a document nothing is recorded by \<open>open()\<close>, and \<open>close()\<close> finalizes
  synchronously: no focus call, no timer.
\<close>

theorem close_deferred_counterexample:
  "p_opened (run [Register sample_input, Open] (without_document False)) \<and>
   \<not> p_opened (close (run [Register sample_input, Open] (without_document False))) \<and>
   timers (close (run [Register sample_input, Open] (without_document False))) = [] \<and>
   trace (close (run [Register sample_input, Open] (without_document False))) =
     [Overlay_create 1, Overlay_attach 1 2, Emit_opened, Mark_for_check 2, Emit_closed]"
  by (simp add: model_defs)

text \<open>
  C6: for a popup that is not disposed, a backdrop click, a detachment, a key event with
  the Escape key code, and a key event with Alt and the Up-arrow key code when an input is
  registered, each run \<open>close()\<close> (after preventing the default where there is an event
  object); any other key event leaves the state as it is.
\<close>

theorem popup_dismissal:
  assumes "p \<in> fst ` set (overlays s)"
  shows "step (Popup p BackdropClick) s = close (emit Prevent_default s) \<and>
         step (Popup p Detachment) s = close s \<and>
         (keyCode k = ESCAPE \<longrightarrow> step (Popup p (Keydown k)) s = close (emit Prevent_default s)) \<and>
         (datepickerInput s \<noteq> None \<and> altKey k \<and> keyCode k = UP_ARROW \<longrightarrow>
            step (Popup p (Keydown k)) s = close (emit Prevent_default s)) \<and>
         (keyCode k \<noteq> ESCAPE \<and> (datepickerInput s = None \<or> \<not> altKey k \<or> keyCode k \<noteq> UP_ARROW) \<longrightarrow>
            step (Popup p (Keydown k)) s = s)"
  using assms by (auto simp: popup_handler_def keydown_filter_def)

theorem popup_dismissal_witness:
  "1 \<in> fst ` set (overlays (run [Register sample_input, Open] (without_document False))) \<and>
   \<not> p_opened (step (Popup 1 BackdropClick) (run [Register sample_input, Open] (without_document False))) \<and>
   \<not> p_opened (step (Popup 1 Detachment) (run [Register sample_input, Open] (without_document False))) \<and>
   \<not> p_opened (step (Popup 1 (Keydown \<lparr>keyCode = 27, altKey = False\<rparr>))
                  (run [Register sample_input, Open] (without_document False))) \<and>
   \<not> p_opened (step (Popup 1 (Keydown \<lparr>keyCode = 38, altKey = True\<rparr>))
                  (run [Register sample_input, Open] (without_document False))) \<and>
   p_opened (step (Popup 1 (Keydown \<lparr>keyCode = 38, altKey = False\<rparr>))
                  (run [Register sample_input, Open] (without_document False)))"
proof -
  let ?s = "run [Register sample_input, Open] (without_document False)"
  have live: "1 \<in> fst ` set (overlays ?s)" by (simp add: model_defs)
  have o: "p_opened ?s" "datepickerInput ?s \<noteq> None" by (simp_all add: model_defs)
  have c: "\<not> p_opened (close ?s)" "\<not> p_opened (close (emit Prevent_default ?s))"
    by (simp_all add: model_defs)
  from popup_dismissal [OF live, of "\<lparr>keyCode = 27, altKey = False\<rparr>"] c
  have 1: "\<not> p_opened (step (Popup 1 BackdropClick) ?s)" "\<not> p_opened (step (Popup 1 Detachment) ?s)"
    "\<not> p_opened (step (Popup 1 (Keydown \<lparr>keyCode = 27, altKey = False\<rparr>)) ?s)"
    by (simp_all add: ESCAPE_def)
  from popup_dismissal [OF live, of "\<lparr>keyCode = 38, altKey = True\<rparr>"] c o
  have 2: "\<not> p_opened (step (Popup 1 (Keydown \<lparr>keyCode = 38, altKey = True\<rparr>)) ?s)"
    by (simp add: UP_ARROW_def)
  from popup_dismissal [OF live, of "\<lparr>keyCode = 38, altKey = False\<rparr>"] o
  have 3: "p_opened (step (Popup 1 (Keydown \<lparr>keyCode = 38, altKey = False\<rparr>)) ?s)"
    by (simp add: ESCAPE_def)
  from live 1 2 3 show ?thesis by blast
qed

subsection \<open>Registration and the opened property\<close>

text \<open>
  C7: registering an input when one is registered throws and keeps the registered one;
  the first registration stores the input and returns the selection model.
\<close>

theorem registerInput_single:
  "(datepickerInput s = Some i \<longrightarrow>
      registerInput j s = Throw SingleInputOnly s \<and>
      datepickerInput (state_of (registerInput j s)) = Some i) \<and>
   (datepickerInput s = None \<longrightarrow>
      registerInput j s = Return (model s) (s\<lparr>datepickerInput := Some j\<rparr>))"
  by (simp add: registerInput_def)

theorem registerInput_single_witness:
  "registerInput sample_input (with_page False) =
     Return 0 ((with_page False)\<lparr>datepickerInput := Some sample_input\<rparr>) \<and>
   registerInput (sample_input\<lparr>ctl_disabled := True\<rparr>)
       (state_of (registerInput sample_input (with_page False))) =
     Throw SingleInputOnly (state_of (registerInput sample_input (with_page False))) \<and>
   datepickerInput (state_of (registerInput (sample_input\<lparr>ctl_disabled := True\<rparr>)
       (state_of (registerInput sample_input (with_page False))))) = Some sample_input"
proof -
  let ?a = "with_page False"
  let ?b = "state_of (registerInput sample_input ?a)"
  have a: "datepickerInput ?a = None" "model ?a = 0"
    by (simp_all add: model_defs)
  have b: "datepickerInput ?b = Some sample_input"
    by (simp add: with_page_def initial_def registerInput_def)
  from registerInput_single [of ?a sample_input sample_input] a
  have 1: "registerInput sample_input ?a = Return 0 (?a\<lparr>datepickerInput := Some sample_input\<rparr>)"
    by simp
  from registerInput_single [of ?b sample_input "sample_input\<lparr>ctl_disabled := True\<rparr>"] b
  have 2: "registerInput (sample_input\<lparr>ctl_disabled := True\<rparr>) ?b = Throw SingleInputOnly ?b \<and>
           datepickerInput (state_of (registerInput (sample_input\<lparr>ctl_disabled := True\<rparr>) ?b)) =
             Some sample_input"
    by blast
  from 1 2 show ?thesis by blast
qed

text \<open>
  C10: assigning \<open>true\<close> to the \<open>opened\<close> property is \<open>open()\<close> and assigning
  \<open>false\<close> is \<open>close()\<close>: same resulting state, same throw.
\<close>

theorem set_opened_eq:
  "set_opened True s = open_dp s \<and> set_opened False s = Return () (close s)"
  by (simp add: set_opened_def)

theorem set_opened_eq_witness:
  "set_opened True (with_page False) = Throw NoAssociatedInput (with_page False) \<and>
   set_opened False (with_page False) = Return () (with_page False)"
proof -
  have a: "open_dp (with_page False) = Throw NoAssociatedInput (with_page False)"
    by (simp add: model_defs)
  have b: "close (with_page False) = with_page False"
    by (simp add: model_defs)
  from set_opened_eq [of "with_page False"] a b show ?thesis by simp
qed

subsection \<open>Live handles\<close>




lemma close_fields:
  "popupRef (close s) = popupRef s"
  "overlays (close s) = overlays s"
  "next_ref (close s) = next_ref s"
  "p_touchUi (close s) = p_touchUi s"
  "datepickerInput (close s) = datepickerInput s"
  "stable_subs (close s) = stable_subs s"
  "dialogRef (close s) = (if p_opened s then None else dialogRef s)"
  "dialogs (close s) =
     (if p_opened s
      then (case dialogRef s of Some d \<Rightarrow> filter (\<lambda>e. fst e \<noteq> d) (dialogs s) | None \<Rightarrow> dialogs s)
      else dialogs s)"
  by (simp_all add: close_def completeClose_def startExitAnimation_def
        dialog_close_def focus_def emit_def Let_def split: option.splits)


lemma overlay_released_fields:
  "popupRef (overlay_released p s) = popupRef s"
  "overlays (overlay_released p s) = filter (\<lambda>e. fst e \<noteq> p) (overlays s)"
  "next_ref (overlay_released p s) = next_ref s"
  "p_touchUi (overlay_released p s) = p_touchUi s"
  "datepickerInput (overlay_released p s) = datepickerInput s"
  "stable_subs (overlay_released p s) = stable_subs s"
  "dialogRef (overlay_released p s) = dialogRef s"
  "dialogs (overlay_released p s) = dialogs s"
  "trace (overlay_released p s) = trace s"
  "p_opened (overlay_released p s) = p_opened s"
  by (simp_all add: overlay_released_def Let_def split: option.splits)

lemma overlay_dispose_fields:
  "popupRef (overlay_dispose p s) = popupRef s"
  "overlays (overlay_dispose p s) = filter (\<lambda>e. fst e \<noteq> p) (overlays s)"
  "next_ref (overlay_dispose p s) = next_ref s"
  "p_touchUi (overlay_dispose p s) = p_touchUi s"
  "datepickerInput (overlay_dispose p s) = datepickerInput s"
  "stable_subs (overlay_dispose p s) = stable_subs s"
  by (simp_all add: overlay_dispose_def popup_handler_def close_fields overlay_released_fields
        emit_def Let_def)




lemma destroyPopup_fields:
  "popupRef (destroyPopup s) = None"
  "overlays (destroyPopup s) =
     (case popupRef s of Some p \<Rightarrow> filter (\<lambda>e. fst e \<noteq> p) (overlays s) | None \<Rightarrow> overlays s)"
  "next_ref (destroyPopup s) = next_ref s"
  "p_touchUi (destroyPopup s) = p_touchUi s"
  "datepickerInput (destroyPopup s) = datepickerInput s"
  "stable_subs (destroyPopup s) = stable_subs s"
  by (simp_all add: destroyPopup_def overlay_dispose_fields split: option.splits)







































subsection \<open>The position of the popup\<close>

text \<open>
  The position strategy of a popup opened by \<open>open()\<close>: connected to the overlay origin
  of the registered input, the four placements bottom-start, top-start, bottom-end,
  top-end in this order, a locked position and a viewport margin of 8; and the opening
  registers one subscriber for the next time the zone becomes stable.
\<close>

lemma openAsPopup_config:
  assumes "openAsPopup s = Return () s'"
  shows "\<exists>i ov. datepickerInput s = Some i \<and> (next_ref s, ov) \<in> set (overlays s') \<and>
           positionStrategy (config ov) =
             \<lparr>origin = connectedOverlayOrigin i,
              transformOriginOn = ''.mat-datepicker-content'',
              flexibleDimensions = False, viewportMargin = 8, lockedPosition = True,
              positions =
                [\<lparr>originX = Start, originY = Bottom, overlayX = Start, overlayY = Top\<rparr>,
                 \<lparr>originX = Start, originY = Top, overlayX = Start, overlayY = Bottom\<rparr>,
                 \<lparr>originX = End, originY = Bottom, overlayX = End, overlayY = Top\<rparr>,
                 \<lparr>originX = End, originY = Top, overlayX = End, overlayY = Bottom\<rparr>]\<rparr> \<and>
           stable_subs s' = stable_subs s + 1"
proof -
  define s0 where "s0 = destroyPopup s"
  have same: "datepickerInput s0 = datepickerInput s" "next_ref s0 = next_ref s"
    "stable_subs s0 = stable_subs s"
    by (simp_all add: s0_def destroyPopup_fields)
  from assms obtain i where i: "datepickerInput s = Some i"
    using same
    by (cases "datepickerInput s")
       (auto simp: openAsPopup_def s0_def [symmetric] createPopup_def
          createPopupPositionStrategy_def)
  define ps where "ps = \<lparr>origin = connectedOverlayOrigin i,
              transformOriginOn = ''.mat-datepicker-content'',
              flexibleDimensions = False, viewportMargin = 8, lockedPosition = True,
              positions =
                [\<lparr>originX = Start, originY = Bottom, overlayX = Start, overlayY = Top\<rparr>,
                 \<lparr>originX = Start, originY = Top, overlayX = Start, overlayY = Bottom\<rparr>,
                 \<lparr>originX = End, originY = Bottom, overlayX = End, overlayY = Top\<rparr>,
                 \<lparr>originX = End, originY = Top, overlayX = End, overlayY = Bottom\<rparr>]\<rparr>"
  have s0: "datepickerInput s0 = Some i" using i same by simp
  have cps: "createPopupPositionStrategy s0 = Inr ps"
    using s0 by (simp add: createPopupPositionStrategy_def flexibleConnectedTo_def ps_def)
  define cfg where "cfg = \<lparr>positionStrategy = ps, hasBackdrop = True,
                      backdropClass = ''mat-overlay-transparent-backdrop'',
                      overlay_direction = dir s0, panelClass = ''mat-datepicker-popup''\<rparr>"
  define ov where "ov = \<lparr>config = cfg, role = Some ''dialog'', attached = Some (next_ref s + 1)\<rparr>"
  from assms have "(next_ref s, ov) \<in> set (overlays s') \<and> stable_subs s' = stable_subs s + 1"
    using cps same unfolding openAsPopup_def s0_def[symmetric]
    by (auto simp: createPopup_def overlay_attach_def forwardContentValues_def emit_def Let_def
          ov_def cfg_def split: option.splits)
  moreover have "positionStrategy (config ov) = ps" by (simp add: ov_def cfg_def)
  ultimately show ?thesis using i unfolding ps_def by blast
qed

lemma popup_position_strategy:
  assumes "\<not> p_opened s" and "\<not> disabled s" and "\<not> touchUi s" and "open_dp s = Return () s'"
  shows "\<exists>i ov. datepickerInput s = Some i \<and> popupRef s' = Some (next_ref s) \<and>
           (next_ref s, ov) \<in> set (overlays s') \<and>
           positionStrategy (config ov) =
             \<lparr>origin = connectedOverlayOrigin i,
              transformOriginOn = ''.mat-datepicker-content'',
              flexibleDimensions = False, viewportMargin = 8, lockedPosition = True,
              positions =
                [\<lparr>originX = Start, originY = Bottom, overlayX = Start, overlayY = Top\<rparr>,
                 \<lparr>originX = Start, originY = Top, overlayX = Start, overlayY = Bottom\<rparr>,
                 \<lparr>originX = End, originY = Bottom, overlayX = End, overlayY = Top\<rparr>,
                 \<lparr>originX = End, originY = Top, overlayX = End, overlayY = Bottom\<rparr>]\<rparr> \<and>
           stable_subs s' = stable_subs s + 1"
proof -
  define s1 where "s1 = (case document s of Some a \<Rightarrow> s\<lparr>focusedElementBeforeOpen := a\<rparr> | None \<Rightarrow> s)"
  from open_dp_success [OF assms(1,2,4)] assms(3) obtain s2 where
    run: "openAsPopup s1 = Return () s2" and
    s': "s' = emit Emit_opened (s2\<lparr>p_opened := True\<rparr>)"
    unfolding s1_def touchUi_def by auto
  have same: "next_ref s1 = next_ref s" "datepickerInput s1 = datepickerInput s"
    "stable_subs s1 = stable_subs s" "\<not> p_opened s1"
    using assms(1) by (simp_all add: s1_def split: option.splits)
  from openAsPopup_config [OF run] same obtain i ov where
    c: "datepickerInput s = Some i" "(next_ref s, ov) \<in> set (overlays s2)"
       "positionStrategy (config ov) =
             \<lparr>origin = connectedOverlayOrigin i,
              transformOriginOn = ''.mat-datepicker-content'',
              flexibleDimensions = False, viewportMargin = 8, lockedPosition = True,
              positions =
                [\<lparr>originX = Start, originY = Bottom, overlayX = Start, overlayY = Top\<rparr>,
                 \<lparr>originX = Start, originY = Top, overlayX = Start, overlayY = Bottom\<rparr>,
                 \<lparr>originX = End, originY = Bottom, overlayX = End, overlayY = Top\<rparr>,
                 \<lparr>originX = End, originY = Top, overlayX = End, overlayY = Bottom\<rparr>]\<rparr>"
       "stable_subs s2 = stable_subs s + 1"
    by auto
  from openAsPopup_fields [OF same(4) run] same have p: "popupRef s2 = Some (next_ref s)" by simp
  have f: "popupRef s' = Some (next_ref s)" "overlays s' = overlays s2"
    "stable_subs s' = stable_subs s + 1"
    using p c(4) by (simp_all add: s' emit_def)
  from c(1) c(2) c(3) f show ?thesis by auto
qed

text \<open>
  C8: the subscriber re-measures the popup that \<open>_popupRef\<close> holds when the zone becomes
  stable, not the popup it was registered for. After \<open>open()\<close>, \<open>close()\<close>, \<open>open()\<close>
  before the zone is stable, the second popup is re-measured twice and the first never;
  after \<open>open()\<close> and the destruction of the datepicker before the zone is stable, the
  subscriber finds no popup to re-measure. An opening followed by two stabilizations
  re-measures its popup once.
\<close>

theorem remeasure_late_bound:
  "trace (run [Register sample_input, Open, Close, Open, Stable] (without_document False)) =
     [Overlay_create 1, Overlay_attach 1 2, Emit_opened, Mark_for_check 2, Emit_closed,
      Overlay_dispose 1, Overlay_create 3, Overlay_attach 3 4, Emit_opened,
      Update_position 3, Update_position 3] \<and>
   trace (run [Register sample_input, Open, Destroy, Stable] (without_document False)) =
     [Overlay_create 1, Overlay_attach 1 2, Emit_opened, Overlay_dispose 1, Mark_for_check 2,
      Emit_closed, Uncaught TypeError] \<and>
   trace (run [Register sample_input, Open, Stable, Stable] (without_document False)) =
     [Overlay_create 1, Overlay_attach 1 2, Emit_opened, Update_position 1]"
  by (simp add: model_defs numeral_2_eq_2)

end
